theory Spec2Isabelle
  imports Main
begin

section \<open>The database of one channel\<close>

text \<open>
  \<^verbatim>\<open>Factoids.makeDb\<close> creates two tables per channel:
  \<^verbatim>\<open>keys (id INTEGER PRIMARY KEY, key TEXT UNIQUE ON CONFLICT IGNORE, locked BOOLEAN)\<close> and
  \<^verbatim>\<open>factoids (id INTEGER PRIMARY KEY, key_id INTEGER, added_by TEXT, added_at TIMESTAMP, fact TEXT)\<close>,
  and the trigger \<^verbatim>\<open>remove_factoids\<close>. A table is the list of its rows in storage
  order. SQLite keeps a table with an \<^verbatim>\<open>INTEGER PRIMARY KEY\<close> in a B-tree keyed on that
  column, so storage order is ascending \<^verbatim>\<open>id\<close>; a \<^verbatim>\<open>SELECT\<close> without
  \<^verbatim>\<open>ORDER BY\<close> is modelled as a scan in storage order. The columns are prefixed
  (\<open>k_\<close>, \<open>f_\<close>) because \<open>id\<close> is a constant of HOL.
\<close>

record key_row =
  k_id :: nat
  k_key :: string
  k_locked :: bool

record factoid_row =
  f_id :: nat
  f_key_id :: nat
  f_added_by :: string
  f_added_at :: int
  f_fact :: string

record db =
  keys :: "key_row list"
  factoids :: "factoid_row list"

text \<open>The database \<^verbatim>\<open>makeDb\<close> returns for a file that did not exist: both tables empty.\<close>

definition makeDb :: db where
  "makeDb = \<lparr>keys = [], factoids = []\<rparr>"

text \<open>
  Inserting \<^verbatim>\<open>NULL\<close> into an \<^verbatim>\<open>INTEGER PRIMARY KEY\<close> column: SQLite takes one more than
  the largest id in the table, and 1 for an empty table.
\<close>

definition next_rowid :: "nat list \<Rightarrow> nat" where
  "next_rowid ids = Suc (fold max ids 0)"

subsection \<open>The SQL statements of the plugin\<close>

text \<open>\<^verbatim>\<open>SELECT id, locked FROM keys WHERE key=%s\<close> (learn, factoidinfo).\<close>

definition select_key :: "string \<Rightarrow> db \<Rightarrow> (nat \<times> bool) list" where
  "select_key key d = map (\<lambda>r. (k_id r, k_locked r)) (filter (\<lambda>r. k_key r = key) (keys d))"

text \<open>
  \<^verbatim>\<open>INSERT INTO keys VALUES (NULL, %s, 0)\<close>; the column \<^verbatim>\<open>key\<close> is
  \<^verbatim>\<open>UNIQUE ON CONFLICT IGNORE\<close>, so inserting a text already present does nothing.
\<close>

definition insert_key :: "string \<Rightarrow> db \<Rightarrow> db" where
  "insert_key key d =
     (if key \<in> set (map k_key (keys d)) then d
      else d\<lparr>keys := keys d @
             [\<lparr>k_id = next_rowid (map k_id (keys d)), k_key = key, k_locked = False\<rparr>]\<rparr>)"

text \<open>\<^verbatim>\<open>INSERT INTO factoids VALUES (NULL, %s, %s, %s, %s)\<close>.\<close>

definition insert_factoid :: "nat \<Rightarrow> string \<Rightarrow> int \<Rightarrow> string \<Rightarrow> db \<Rightarrow> db" where
  "insert_factoid kid name now factoid d =
     d\<lparr>factoids := factoids d @
        [\<lparr>f_id = next_rowid (map f_id (factoids d)), f_key_id = kid, f_added_by = name,
          f_added_at = now, f_fact = factoid\<rparr>]\<rparr>"

text \<open>
  The rows of the join \<^verbatim>\<open>FROM keys, factoids WHERE key=%s AND factoids.key_id=keys.id\<close>:
  a nested loop, the matching rows of \<^verbatim>\<open>keys\<close> outside, \<^verbatim>\<open>factoids\<close> scanned inside.
\<close>

definition join_rows :: "string \<Rightarrow> db \<Rightarrow> (key_row \<times> factoid_row) list" where
  "join_rows key d =
     concat (map (\<lambda>k. map (\<lambda>f. (k, f)) (filter (\<lambda>f. f_key_id f = k_id k) (factoids d)))
                 (filter (\<lambda>k. k_key k = key) (keys d)))"

text \<open>
  \<^verbatim>\<open>SELECT factoids.fact FROM factoids, keys WHERE keys.key=%s AND factoids.key_id=keys.id
  ORDER BY factoids.id LIMIT 20\<close> (whatis).
\<close>

definition whatis_rows :: "string \<Rightarrow> db \<Rightarrow> string list" where
  "whatis_rows key d = map f_fact (take 20 (sort_key f_id (map snd (join_rows key d))))"

text \<open>
  \<^verbatim>\<open>SELECT keys.id, factoids.id FROM keys, factoids WHERE key=%s AND factoids.key_id=keys.id\<close>
  (unlearn): no \<^verbatim>\<open>ORDER BY\<close>, the rows come in scan order.
\<close>

definition unlearn_rows :: "string \<Rightarrow> db \<Rightarrow> (nat \<times> nat) list" where
  "unlearn_rows key d = map (\<lambda>(k, f). (k_id k, f_id f)) (join_rows key d)"

text \<open>\<^verbatim>\<open>UPDATE keys SET locked = b WHERE key=%s\<close> (lock, unlock).\<close>

definition update_locked :: "bool \<Rightarrow> string \<Rightarrow> db \<Rightarrow> db" where
  "update_locked b key d =
     d\<lparr>keys := map (\<lambda>r. if k_key r = key then r\<lparr>k_locked := b\<rparr> else r) (keys d)\<rparr>"

text \<open>\<^verbatim>\<open>DELETE FROM factoids WHERE key_id=%s\<close>.\<close>

definition delete_factoids_key_id :: "nat \<Rightarrow> db \<Rightarrow> db" where
  "delete_factoids_key_id kid d = d\<lparr>factoids := filter (\<lambda>f. f_key_id f \<noteq> kid) (factoids d)\<rparr>"

text \<open>\<^verbatim>\<open>DELETE FROM factoids WHERE id=%s\<close>.\<close>

definition delete_factoid_id :: "nat \<Rightarrow> db \<Rightarrow> db" where
  "delete_factoid_id fid d = d\<lparr>factoids := filter (\<lambda>f. f_id f \<noteq> fid) (factoids d)\<rparr>"

text \<open>
  \<^verbatim>\<open>DELETE FROM keys WHERE key=%s\<close>. The trigger \<^verbatim>\<open>remove_factoids\<close> runs before each
  deleted row: \<^verbatim>\<open>DELETE FROM factoids WHERE key_id = old.id\<close>.
\<close>

definition delete_keys_key :: "string \<Rightarrow> db \<Rightarrow> db" where
  "delete_keys_key key d =
     \<lparr>keys = filter (\<lambda>r. k_key r \<noteq> key) (keys d),
      factoids = filter (\<lambda>f. f_key_id f \<notin> set (map k_id (filter (\<lambda>r. k_key r = key) (keys d))))
                        (factoids d)\<rparr>"

section \<open>Python values the commands compute with\<close>

text \<open>The exceptions a command can leave uncaught.\<close>

datatype exn = ArgumentError | ValueError | IndexError | TypeError

text \<open>\<^verbatim>\<open>sep.join(xs)\<close>.\<close>

fun join :: "string \<Rightarrow> string list \<Rightarrow> string" where
  "join sep [] = []"
| "join sep [x] = x"
| "join sep (x # y # ys) = x @ sep @ join sep (y # ys)"

text \<open>\<^verbatim>\<open>args.index(x)\<close>: the first position of \<open>x\<close>; \<open>None\<close> stands for its ValueError.\<close>

fun index_of :: "string \<Rightarrow> string list \<Rightarrow> nat option" where
  "index_of x [] = None"
| "index_of x (y # ys) = (if y = x then Some 0 else map_option Suc (index_of x ys))"

text \<open>
  \<^verbatim>\<open>xs[i]\<close> on a list: a negative index counts from the end; \<open>None\<close> stands for
  IndexError.
\<close>

definition py_index :: "'a list \<Rightarrow> int \<Rightarrow> 'a option" where
  "py_index xs i =
     (if 0 \<le> i \<and> i < int (length xs) then Some (xs ! nat i)
      else if i < 0 \<and> - int (length xs) \<le> i then Some (xs ! nat (int (length xs) + i))
      else None)"

text \<open>
  \<^verbatim>\<open>int(s)\<close> on a string: surrounding whitespace is dropped, then an optional sign and
  at least one decimal digit must remain; \<open>None\<close> stands for ValueError.
\<close>

definition digit_val :: "char \<Rightarrow> nat option" where
  "digit_val c = map_of (zip ''0123456789'' [0, 1, 2, 3, 4, 5, 6, 7, 8, 9]) c"

fun digits_val :: "nat \<Rightarrow> string \<Rightarrow> nat option" where
  "digits_val acc [] = Some acc"
| "digits_val acc (c # cs) =
     (case digit_val c of None \<Rightarrow> None | Some v \<Rightarrow> digits_val (10 * acc + v) cs)"

definition is_space :: "char \<Rightarrow> bool" where
  "is_space c = (c = CHR '' '' \<or> c = CHR 0x09 \<or> c = CHR 0x0A \<or> c = CHR 0x0B
                 \<or> c = CHR 0x0C \<or> c = CHR 0x0D)"

definition strip :: "string \<Rightarrow> string" where
  "strip s = rev (dropWhile is_space (rev (dropWhile is_space s)))"

definition unsigned_val :: "string \<Rightarrow> nat option" where
  "unsigned_val s = (if s = [] then None else digits_val 0 s)"

definition py_int :: "string \<Rightarrow> int option" where
  "py_int s =
     (case strip s of
        [] \<Rightarrow> None
      | c # cs \<Rightarrow>
          if c = CHR ''-'' then map_option (\<lambda>n. - int n) (unsigned_val cs)
          else if c = CHR ''+'' then map_option int (unsigned_val cs)
          else map_option int (unsigned_val (c # cs)))"

text \<open>
  \<^verbatim>\<open>privmsgs.getArgs\<close> belongs to the bot, not to this plugin; the commands take it as
  the parameter \<open>getArgs\<close>, which returns the key text or raises. \<open>join_args\<close> is the
  reader the examples use: ArgumentError on an empty list, otherwise the arguments joined
  by a space.
\<close>

type_synonym args_reader = "string list \<Rightarrow> exn + string"

definition join_args :: args_reader where
  "join_args args = (if args = [] then Inl ArgumentError else Inr (join '' '' args))"

section \<open>The commands\<close>

text \<open>
  What a command sends back: one constructor for each \<^verbatim>\<open>irc.reply\<close> and \<^verbatim>\<open>irc.error\<close> of
  the plugin, holding the values its format string is filled with, and \<open>Raised\<close> for an
  exception that leaves the command.
\<close>

type_synonym entry = "nat \<times> string"

datatype reply =
    ReplySuccess
  | ErrorNoCapability
  | ErrorLocked
  | ErrorNoMatch
  | ReplyCouldBe string "entry list" "(int \<times> nat) option"
  | ErrorNoSuchFactoid
  | ErrorInvalidNumber
  | ErrorSpecify nat
  | ReplyFactoid string string
  | ErrorNoFactoid
  | ReplyInfo string bool nat "(nat \<times> string \<times> int) list"
  | Raised exn

text \<open>
  Every command takes the argument list as \<^verbatim>\<open>privmsgs.getChannel\<close> leaves it and the
  database \<^verbatim>\<open>self.getDb(channel)\<close> of that channel, and returns its reply and the
  database afterwards. \<open>cap\<close> is the answer of \<^verbatim>\<open>ircdb.checkCapability(msg.prefix,
  capability)\<close>, \<open>name\<close> the user name or nick the plugin resolves, \<open>now\<close> is
  \<^verbatim>\<open>int(time.time())\<close>. Statements run one after the other on one connection, so
  \<^verbatim>\<open>db.commit()\<close> changes nothing in this model.
\<close>

subsection \<open>learn\<close>

definition learn :: "string list \<Rightarrow> bool \<Rightarrow> string \<Rightarrow> int \<Rightarrow> db \<Rightarrow> reply \<times> db" where
  "learn args cap name now d =
     (case index_of ''as'' args of
        None \<Rightarrow> (Raised ArgumentError, d)
      | Some i \<Rightarrow>
          (let key = join '' '' (take i args);
               factoid = join '' '' (drop (Suc i) args);
               found = select_key key d;
               d1 = (if found = [] then insert_key key d else d);
               rows = (if found = [] then select_key key d1 else found)
           in case rows of
                [] \<Rightarrow> (Raised TypeError, d1)
              | (kid, locked) # _ \<Rightarrow>
                  if \<not> locked then
                    if \<not> cap then (ErrorNoCapability, d1)
                    else (ReplySuccess, insert_factoid kid name now factoid d1)
                  else (ErrorLocked, d1)))"

subsection \<open>whatis\<close>

text \<open>
  The loop over \<^verbatim>\<open>cursor.fetchall()\<close>: each fact is numbered by the running counter. The
  source's list \<^verbatim>\<open>factoids\<close> is \<open>facts\<close> here (\<open>factoids\<close> names the table), and an
  entry \<open>(counter, fact)\<close> stands for the string \<^verbatim>\<open>'(#%s) %s' % (counter, result[0])\<close>.
\<close>

fun whatis_loop :: "string list \<Rightarrow> nat \<Rightarrow> entry list \<Rightarrow> nat \<times> entry list" where
  "whatis_loop [] counter facts = (counter, facts)"
| "whatis_loop (result # rest) counter facts =
     whatis_loop rest (counter + 1) (facts @ [(counter, result)])"

text \<open>
  \<^verbatim>\<open>ircutils.shrinkList(factoids, ', or ', 400)\<close> is a function of the bot outside this
  plugin; it can shorten the list in place, and whatis tests what it returns. It is the
  parameter \<open>shrinkList\<close>, which returns the list afterwards and whether the value the
  function returned is true.
\<close>

definition whatis ::
  "(entry list \<Rightarrow> entry list \<times> bool) \<Rightarrow> args_reader \<Rightarrow> string list \<Rightarrow> db \<Rightarrow> reply \<times> db"
where
  "whatis shrinkList getArgs args d =
     (case getArgs args of
        Inl e \<Rightarrow> (Raised e, d)
      | Inr key \<Rightarrow>
          (let rows = whatis_rows key d in
           if length rows = 0 then (ErrorNoMatch, d)
           else
             (let (counter, facts) = whatis_loop rows 0 [];
                  totalResults = length facts;
                  (shown, shrunk) = shrinkList facts
              in if shrunk
                 then (ReplyCouldBe key shown (Some (int counter - 1, totalResults)), d)
                 else (ReplyCouldBe key shown None, d))))"

subsection \<open>lock and unlock\<close>

definition lock :: "args_reader \<Rightarrow> string list \<Rightarrow> bool \<Rightarrow> db \<Rightarrow> reply \<times> db" where
  "lock getArgs args cap d =
     (case getArgs args of
        Inl e \<Rightarrow> (Raised e, d)
      | Inr key \<Rightarrow>
          if cap then (ReplySuccess, update_locked True key d)
          else (ErrorNoCapability, d))"

definition unlock :: "args_reader \<Rightarrow> string list \<Rightarrow> bool \<Rightarrow> db \<Rightarrow> reply \<times> db" where
  "unlock getArgs args cap d =
     (case getArgs args of
        Inl e \<Rightarrow> (Raised e, d)
      | Inr key \<Rightarrow>
          if cap then (ReplySuccess, update_locked False key d)
          else (ErrorNoCapability, d))"

subsection \<open>unlearn\<close>

text \<open>
  \<^verbatim>\<open>if args[-1].isdigit:\<close> tests the bound method, which the source does not call; a
  method object is true whatever the string is.
\<close>

definition isdigit_attr :: "string \<Rightarrow> bool" where
  "isdigit_attr s = True"

text \<open>Lines 205 to 232: what unlearn does once the capability is granted.\<close>

definition unlearn_db :: "int option \<Rightarrow> string \<Rightarrow> db \<Rightarrow> reply \<times> db" where
  "unlearn_db number key d =
     (let rows = unlearn_rows key d in
      if length rows = 0 then (ErrorNoSuchFactoid, d)
      else if length rows = 1 then
        (case hd rows of
           (kid, _) \<Rightarrow> (ReplySuccess, delete_keys_key key (delete_factoids_key_id kid d)))
      else
        (case number of
           Some n \<Rightarrow>
             (case py_index rows n of
                None \<Rightarrow> (ErrorInvalidNumber, d)
              | Some (_, fid) \<Rightarrow> (ReplySuccess, delete_factoid_id fid d))
         | None \<Rightarrow> (ErrorSpecify (length rows), d)))"

definition unlearn :: "args_reader \<Rightarrow> string list \<Rightarrow> bool \<Rightarrow> db \<Rightarrow> reply \<times> db" where
  "unlearn getArgs args cap d =
     (if args = [] then (Raised IndexError, d)
      else
        (case (if isdigit_attr (last args)
               then (case py_int (last args) of
                       None \<Rightarrow> Inl ValueError
                     | Some n \<Rightarrow> Inr (Some n, butlast args))
               else Inr (None, args)) of
           Inl e \<Rightarrow> (Raised e, d)
         | Inr (number, rest) \<Rightarrow>
             (case getArgs rest of
                Inl e \<Rightarrow> (Raised e, d)
              | Inr key \<Rightarrow>
                  if cap then unlearn_db number key d
                  else (ErrorNoCapability, d))))"

subsection \<open>randomfactoid and factoidinfo\<close>

text \<open>
  \<^verbatim>\<open>SELECT fact, key_id FROM factoids ORDER BY random() LIMIT 1\<close>: the number \<open>r\<close> is
  the draw, it picks the row. \<^verbatim>\<open>cursor.fetchone()[0]\<close> on an empty result raises
  TypeError.
\<close>

definition randomfactoid :: "nat \<Rightarrow> db \<Rightarrow> reply \<times> db" where
  "randomfactoid r d =
     (if length (factoids d) \<noteq> 0 then
        (let row = factoids d ! (r mod length (factoids d)) in
         case filter (\<lambda>k. k_id k = f_key_id row) (keys d) of
           [] \<Rightarrow> (Raised TypeError, d)
         | k # _ \<Rightarrow> (ReplyFactoid (k_key k) (f_fact row), d))
      else (ErrorNoFactoid, d))"

fun info_loop ::
  "(string \<times> int) list \<Rightarrow> nat \<Rightarrow> (nat \<times> string \<times> int) list \<Rightarrow> nat \<times> (nat \<times> string \<times> int) list"
where
  "info_loop [] counter L = (counter, L)"
| "info_loop ((added_by, added_at) # rest) counter L =
     info_loop rest (counter + 1) (L @ [(counter, added_by, added_at)])"

definition factoidinfo :: "args_reader \<Rightarrow> string list \<Rightarrow> db \<Rightarrow> reply \<times> db" where
  "factoidinfo getArgs args d =
     (case getArgs args of
        Inl e \<Rightarrow> (Raised e, d)
      | Inr key \<Rightarrow>
          (case select_key key d of
             [] \<Rightarrow> (ErrorNoMatch, d)
           | (kid, locked) # _ \<Rightarrow>
               (let rows = map (\<lambda>f. (f_added_by f, f_added_at f))
                             (sort_key f_id (filter (\<lambda>f. f_key_id f = kid) (factoids d)));
                    (counter, L) = info_loop rows 0 []
                in (ReplyInfo key locked counter L, d))))"

section \<open>Well-formed databases and the factoids of a key\<close>

text \<open>
  What the schema enforces on every database the plugin can reach: the ids of each table
  are distinct and stored in ascending order (\<^verbatim>\<open>INTEGER PRIMARY KEY\<close>), and no two rows
  of \<^verbatim>\<open>keys\<close> hold the same text (\<^verbatim>\<open>UNIQUE\<close>).
\<close>

definition wf_db :: "db \<Rightarrow> bool" where
  "wf_db d = (sorted_wrt (<) (map k_id (keys d)) \<and> distinct (map k_key (keys d))
              \<and> sorted_wrt (<) (map f_id (factoids d)))"

text \<open>The factoids of the key with id \<open>kid\<close>, in storage order.\<close>

definition key_factoids :: "nat \<Rightarrow> db \<Rightarrow> factoid_row list" where
  "key_factoids kid d = filter (\<lambda>f. f_key_id f = kid) (factoids d)"

text \<open>No row of \<^verbatim>\<open>keys\<close> is without a factoid.\<close>

definition no_empty_key :: "db \<Rightarrow> bool" where
  "no_empty_key d = list_all (\<lambda>k. key_factoids (k_id k) d \<noteq> []) (keys d)"

text \<open>The same database with the lock flag of every key row set by \<open>g\<close>.\<close>

definition relock :: "(key_row \<Rightarrow> bool) \<Rightarrow> db \<Rightarrow> db" where
  "relock g d = d\<lparr>keys := map (\<lambda>r. r\<lparr>k_locked := g r\<rparr>) (keys d)\<rparr>"

section \<open>Sequences of commands\<close>

text \<open>
  One constructor for each command of the plugin with what the command reads besides the
  database; \<open>run\<close> applies a list of commands to a database, each to the database the
  one before left.
\<close>

datatype command =
    Learn "string list" bool string int
  | WhatIs "string list"
  | Lock "string list" bool
  | Unlock "string list" bool
  | Unlearn "string list" bool
  | RandomFactoid nat
  | Info "string list"

fun step ::
  "(entry list \<Rightarrow> entry list \<times> bool) \<Rightarrow> args_reader \<Rightarrow> command \<Rightarrow> db \<Rightarrow> reply \<times> db"
where
  "step shrinkList getArgs (Learn args cap name now) d = learn args cap name now d"
| "step shrinkList getArgs (WhatIs args) d = whatis shrinkList getArgs args d"
| "step shrinkList getArgs (Lock args cap) d = lock getArgs args cap d"
| "step shrinkList getArgs (Unlock args cap) d = unlock getArgs args cap d"
| "step shrinkList getArgs (Unlearn args cap) d = unlearn getArgs args cap d"
| "step shrinkList getArgs (RandomFactoid r) d = randomfactoid r d"
| "step shrinkList getArgs (Info args) d = factoidinfo getArgs args d"

fun run ::
  "(entry list \<Rightarrow> entry list \<times> bool) \<Rightarrow> args_reader \<Rightarrow> command list \<Rightarrow> db \<Rightarrow> db"
where
  "run shrinkList getArgs [] d = d"
| "run shrinkList getArgs (c # cs) d =
     run shrinkList getArgs cs (snd (step shrinkList getArgs c d))"

text \<open>A command that is not a learn by a caller without the capability.\<close>

fun learn_granted :: "command \<Rightarrow> bool" where
  "learn_granted (Learn args cap name now) = cap"
| "learn_granted c = True"

section \<open>Example databases\<close>

text \<open>
  The channel after \<^verbatim>\<open>learn color as blue\<close> by alice and then \<^verbatim>\<open>learn color as red\<close> by
  bob, the same with the key locked, and a channel whose key \<^verbatim>\<open>k\<close> has 25 factoids.
\<close>

definition color_key :: key_row where
  "color_key = \<lparr>k_id = 1, k_key = ''color'', k_locked = False\<rparr>"

definition fact_blue :: factoid_row where
  "fact_blue = \<lparr>f_id = 1, f_key_id = 1, f_added_by = ''alice'', f_added_at = 100, f_fact = ''blue''\<rparr>"

definition fact_red :: factoid_row where
  "fact_red = \<lparr>f_id = 2, f_key_id = 1, f_added_by = ''bob'', f_added_at = 200, f_fact = ''red''\<rparr>"

definition db_color1 :: db where
  "db_color1 = \<lparr>keys = [color_key], factoids = [fact_blue]\<rparr>"

definition db_color2 :: db where
  "db_color2 = \<lparr>keys = [color_key], factoids = [fact_blue, fact_red]\<rparr>"

definition db_locked :: db where
  "db_locked = \<lparr>keys = [color_key\<lparr>k_locked := True\<rparr>], factoids = [fact_blue, fact_red]\<rparr>"

definition db_many :: db where
  "db_many =
     \<lparr>keys = [\<lparr>k_id = 1, k_key = ''k'', k_locked = False\<rparr>],
      factoids =
        map (\<lambda>i. \<lparr>f_id = i, f_key_id = 1, f_added_by = ''a'', f_added_at = 0, f_fact = ''v''\<rparr>)
          [1, 2, 3, 4, 5, 6, 7, 8, 9, 10, 11, 12, 13, 14, 15, 16, 17, 18, 19, 20, 21, 22, 23,
           24, 25]\<rparr>"

lemmas statement_defs =
  makeDb_def next_rowid_def select_key_def insert_key_def insert_factoid_def join_rows_def
  whatis_rows_def unlearn_rows_def update_locked_def delete_factoids_key_id_def
  delete_factoid_id_def delete_keys_key_def

lemmas python_defs =
  py_index_def digit_val_def is_space_def strip_def unsigned_val_def py_int_def join_args_def
  isdigit_attr_def

lemmas example_defs =
  color_key_def fact_blue_def fact_red_def db_color1_def db_color2_def db_locked_def

section \<open>Facts about the statements\<close>

lemma fold_max_ge_init: "a \<le> fold max ids (a::nat)"
proof (induction ids arbitrary: a)
  case Nil
  show ?case by simp
next
  case (Cons y ids)
  have "a \<le> max y a" by simp
  also have "max y a \<le> fold max ids (max y a)" by (rule Cons.IH)
  finally show ?case by simp
qed

lemma fold_max_ge_elem: "x \<in> set ids \<Longrightarrow> x \<le> fold max ids (a::nat)"
proof (induction ids arbitrary: a)
  case Nil
  then show ?case by simp
next
  case (Cons y ids)
  show ?case
  proof (cases "x = y")
    case True
    have "y \<le> max y a" by simp
    also have "max y a \<le> fold max ids (max y a)" by (rule fold_max_ge_init)
    finally show ?thesis using True by simp
  next
    case False
    with Cons.prems have "x \<in> set ids" by simp
    then show ?thesis by (simp add: Cons.IH)
  qed
qed

lemma next_rowid_greater: "x \<in> set ids \<Longrightarrow> x < next_rowid ids"
  by (simp add: next_rowid_def fold_max_ge_elem less_Suc_eq_le)

lemma filter_unique_key:
  "distinct (map k_key ks) \<Longrightarrow> k \<in> set ks \<Longrightarrow> filter (\<lambda>r. k_key r = k_key k) ks = [k]"
proof (induction ks)
  case Nil
  then show ?case by simp
next
  case (Cons a ks)
  show ?case
  proof (cases "a = k")
    case True
    with Cons.prems have "\<forall>r \<in> set ks. k_key r \<noteq> k_key k" by (auto simp: image_iff)
    then have "filter (\<lambda>r. k_key r = k_key k) ks = []" by (simp add: filter_empty_conv)
    with True show ?thesis by simp
  next
    case False
    with Cons.prems have "k \<in> set ks" "k_key a \<noteq> k_key k" by force+
    with Cons show ?thesis by simp
  qed
qed

lemma join_rows_present:
  assumes "distinct (map k_key (keys d))" "k \<in> set (keys d)"
  shows "join_rows (k_key k) d = map (\<lambda>f. (k, f)) (key_factoids (k_id k) d)"
  using filter_unique_key [OF assms] by (simp add: join_rows_def key_factoids_def)

lemma join_rows_absent:
  "key \<notin> set (map k_key (keys d)) \<Longrightarrow> join_rows key d = []"
  by (auto simp: join_rows_def filter_empty_conv)

lemma unlearn_rows_present:
  assumes "distinct (map k_key (keys d))" "k \<in> set (keys d)"
  shows "unlearn_rows (k_key k) d = map (\<lambda>f. (k_id k, f_id f)) (key_factoids (k_id k) d)"
  by (simp add: unlearn_rows_def join_rows_present [OF assms])

lemma key_factoids_sorted:
  "wf_db d \<Longrightarrow> sorted_wrt (<) (map f_id (key_factoids kid d))"
  by (simp add: wf_db_def key_factoids_def sorted_wrt_map sorted_wrt_filter)

lemma whatis_rows_present:
  assumes "wf_db d" "k \<in> set (keys d)"
  shows "whatis_rows (k_key k) d = map f_fact (take 20 (key_factoids (k_id k) d))"
proof -
  have d: "distinct (map k_key (keys d))" using assms(1) by (simp add: wf_db_def)
  have "sorted (map f_id (key_factoids (k_id k) d))"
    using key_factoids_sorted [OF assms(1)] by (rule strict_sorted_imp_sorted)
  then have "sort_key f_id (key_factoids (k_id k) d) = key_factoids (k_id k) d"
    by (rule sort_key_id_if_sorted)
  then show ?thesis
    by (simp add: whatis_rows_def join_rows_present [OF d assms(2)] comp_def)
qed

lemma unlearn_parsed:
  assumes "py_int s = Some n" "getArgs ws = Inr key"
  shows "unlearn getArgs (ws @ [s]) cap d =
         (if cap then unlearn_db (Some n) key d else (ErrorNoCapability, d))"
  using assms by (simp add: unlearn_def isdigit_attr_def)

lemma unlearn_not_a_number:
  assumes "py_int s = None"
  shows "unlearn getArgs (ws @ [s]) cap d = (Raised ValueError, d)"
  using assms by (simp add: unlearn_def isdigit_attr_def)

lemma index_of_first:
  "x \<notin> set ws \<Longrightarrow> index_of x (ws @ x # vs) = Some (length ws)"
  by (induction ws) auto

lemma select_key_present:
  assumes "distinct (map k_key (keys d))" "k \<in> set (keys d)"
  shows "select_key (k_key k) d = [(k_id k, k_locked k)]"
  using filter_unique_key [OF assms] by (simp add: select_key_def)

lemma filter_id_is_filter_row:
  assumes "distinct (map f_id fs)" "x \<in> set fs"
  shows "filter (\<lambda>f. f_id f \<noteq> f_id x) fs = filter (\<lambda>f. f \<noteq> x) fs"
proof (rule filter_cong [OF refl])
  fix f assume "f \<in> set fs"
  with assms show "(f_id f \<noteq> f_id x) = (f \<noteq> x)"
    by (auto simp: distinct_map dest: inj_onD)
qed

lemma length_filter_neq:
  assumes "distinct xs" "x \<in> set xs"
  shows "Suc (length (filter (\<lambda>y. y \<noteq> x) xs)) = length xs"
proof -
  have keep: "\<And>ys. x \<notin> set ys \<Longrightarrow> filter (\<lambda>y. y \<noteq> x) ys = ys"
    by (simp add: filter_id_conv) blast
  show ?thesis using assms by (induction xs) (auto simp: keep)
qed

lemma wf_distinct_factoids: "wf_db d \<Longrightarrow> distinct (map f_id (factoids d))"
  by (simp add: wf_db_def strict_sorted_iff)

lemma py_index_in_range:
  "i < length xs \<Longrightarrow> py_index xs (int i) = Some (xs ! i)"
  by (simp add: py_index_def)

lemma single_key_factoid:
  assumes "key_factoids kid d = [x]"
  shows "filter (\<lambda>f. f_key_id f \<noteq> kid) (factoids d) = filter (\<lambda>f. f \<noteq> x) (factoids d)"
proof (rule filter_cong [OF refl])
  fix f assume f: "f \<in> set (factoids d)"
  have "f_key_id f = kid \<longleftrightarrow> f \<in> set (key_factoids kid d)"
    using f by (simp add: key_factoids_def)
  then show "(f_key_id f \<noteq> kid) = (f \<noteq> x)" using assms by simp
qed

lemma unlearn_db_single:
  assumes "distinct (map k_key (keys d))" "k \<in> set (keys d)" "key_factoids (k_id k) d = [x]"
  shows "unlearn_db number (k_key k) d =
         (ReplySuccess, \<lparr>keys = filter (\<lambda>r. r \<noteq> k) (keys d),
                          factoids = filter (\<lambda>f. f \<noteq> x) (factoids d)\<rparr>)"
proof -
  have rows: "unlearn_rows (k_key k) d = [(k_id k, f_id x)]"
    using unlearn_rows_present [OF assms(1,2)] assms(3) by simp
  have ks: "filter (\<lambda>r. k_key r = k_key k) (keys d) = [k]"
    by (rule filter_unique_key [OF assms(1,2)])
  have ks': "filter (\<lambda>r. k_key r \<noteq> k_key k) (keys d) = filter (\<lambda>r. r \<noteq> k) (keys d)"
  proof (rule filter_cong [OF refl])
    fix r assume "r \<in> set (keys d)"
    with assms(1,2) show "(k_key r \<noteq> k_key k) = (r \<noteq> k)"
      by (auto simp: distinct_map dest: inj_onD)
  qed
  show ?thesis
    by (simp add: unlearn_db_def rows delete_keys_key_def delete_factoids_key_id_def ks ks'
        single_key_factoid [OF assms(3)])
qed

lemma unlearn_db_position:
  assumes "wf_db d" "k \<in> set (keys d)" "i < length (key_factoids (k_id k) d)"
    and "1 < length (key_factoids (k_id k) d)"
  shows "unlearn_db (Some (int i)) (k_key k) d =
         (ReplySuccess, d\<lparr>factoids := filter (\<lambda>f. f \<noteq> key_factoids (k_id k) d ! i) (factoids d)\<rparr>)"
proof -
  let ?fs = "key_factoids (k_id k) d"
  have dist: "distinct (map k_key (keys d))" using assms(1) by (simp add: wf_db_def)
  have rows: "unlearn_rows (k_key k) d = map (\<lambda>f. (k_id k, f_id f)) ?fs"
    by (rule unlearn_rows_present [OF dist assms(2)])
  have mem: "?fs ! i \<in> set (factoids d)"
    using nth_mem [OF assms(3)] by (simp add: key_factoids_def)
  have idx: "py_index (map (\<lambda>f. (k_id k, f_id f)) ?fs) (int i) = Some (k_id k, f_id (?fs ! i))"
    using assms(3) by (simp add: py_index_in_range)
  have ne: "?fs \<noteq> []" "length ?fs \<noteq> Suc 0" using assms(4) by auto
  show ?thesis
    by (simp add: unlearn_db_def Let_def rows idx ne delete_factoid_id_def
        filter_id_is_filter_row [OF wf_distinct_factoids [OF assms(1)] mem])
qed

lemma whatis_loop_eq:
  "whatis_loop rows c acc = (c + length rows, acc @ zip [c..<c + length rows] rows)"
proof (induction rows arbitrary: c acc)
  case Nil
  show ?case by simp
next
  case (Cons r rows)
  have "[c..<c + Suc (length rows)] = c # [Suc c..<Suc c + length rows]"
    using upt_conv_Cons [of c "c + Suc (length rows)"] by simp
  then show ?case by (simp add: Cons.IH)
qed

lemma relock_join_rows:
  "join_rows key (relock g d)
   = map (\<lambda>(k, f). (k\<lparr>k_locked := g k\<rparr>, f)) (join_rows key d)"
  by (simp add: join_rows_def relock_def filter_map comp_def map_concat)

lemma relock_unlearn_rows: "unlearn_rows key (relock g d) = unlearn_rows key d"
  by (simp add: unlearn_rows_def relock_join_rows comp_def split_beta)

lemma relock_delete_factoid_id: "delete_factoid_id fid (relock g d) = relock g (delete_factoid_id fid d)"
  by (simp add: delete_factoid_id_def relock_def)

lemma relock_delete_key:
  "delete_keys_key key (delete_factoids_key_id kid (relock g d))
   = relock g (delete_keys_key key (delete_factoids_key_id kid d))"
  by (simp add: delete_keys_key_def delete_factoids_key_id_def relock_def filter_map comp_def)

lemma relock_unlearn_db:
  "unlearn_db number key (relock g d)
   = (fst (unlearn_db number key d), relock g (snd (unlearn_db number key d)))"
  by (simp add: unlearn_db_def Let_def relock_unlearn_rows relock_delete_factoid_id
      relock_delete_key split: option.splits prod.splits)

lemma db_color1_reached:
  "learn [''color'', ''as'', ''blue''] True ''alice'' 100 makeDb = (ReplySuccess, db_color1)"
  by (simp add: learn_def statement_defs example_defs)

lemma db_color2_reached:
  "learn [''color'', ''as'', ''red''] True ''bob'' 200 db_color1 = (ReplySuccess, db_color2)"
  by (simp add: learn_def statement_defs example_defs)

lemma db_locked_reached: "lock join_args [''color''] True db_color2 = (ReplySuccess, db_locked)"
  by (simp add: lock_def statement_defs python_defs example_defs)

subsection \<open>Every command keeps the database well-formed\<close>

lemma wf_makeDb: "wf_db makeDb"
  by (simp add: wf_db_def makeDb_def)

lemma wf_insert_key: "wf_db d \<Longrightarrow> wf_db (insert_key key d)"
  by (auto simp: wf_db_def insert_key_def sorted_wrt_append next_rowid_greater)

lemma wf_insert_factoid: "wf_db d \<Longrightarrow> wf_db (insert_factoid kid name now txt d)"
  by (auto simp: wf_db_def insert_factoid_def sorted_wrt_append next_rowid_greater)

lemma map_update_locked:
  "k_id \<circ> (\<lambda>r. if k_key r = key then r\<lparr>k_locked := b\<rparr> else r) = k_id"
  "k_key \<circ> (\<lambda>r. if k_key r = key then r\<lparr>k_locked := b\<rparr> else r) = k_key"
  by (auto simp: fun_eq_iff)

lemma wf_update_locked: "wf_db d \<Longrightarrow> wf_db (update_locked b key d)"
  by (simp add: wf_db_def update_locked_def map_update_locked)

lemma sorted_wrt_map_filter:
  "sorted_wrt (<) (map f xs) \<Longrightarrow> sorted_wrt (<) (map f (filter P xs))"
  by (simp add: sorted_wrt_map sorted_wrt_filter)

lemma wf_delete_factoid_id: "wf_db d \<Longrightarrow> wf_db (delete_factoid_id fid d)"
  by (simp add: wf_db_def delete_factoid_id_def sorted_wrt_map_filter)

lemma wf_delete_factoids_key_id: "wf_db d \<Longrightarrow> wf_db (delete_factoids_key_id kid d)"
  by (simp add: wf_db_def delete_factoids_key_id_def sorted_wrt_map_filter)

lemma wf_delete_keys_key: "wf_db d \<Longrightarrow> wf_db (delete_keys_key key d)"
  by (simp add: wf_db_def delete_keys_key_def sorted_wrt_map_filter distinct_map_filter)

lemma wf_learn: "wf_db d \<Longrightarrow> wf_db (snd (learn args cap name now d))"
  by (simp add: learn_def Let_def wf_insert_key wf_insert_factoid
      split: option.splits list.splits prod.splits)

lemma wf_unlearn_db: "wf_db d \<Longrightarrow> wf_db (snd (unlearn_db number key d))"
  by (simp add: unlearn_db_def Let_def wf_delete_factoid_id wf_delete_factoids_key_id
      wf_delete_keys_key split: option.splits prod.splits)

lemma wf_unlearn: "wf_db d \<Longrightarrow> wf_db (snd (unlearn getArgs args cap d))"
  by (simp add: unlearn_def wf_unlearn_db split: option.splits sum.splits)

lemma wf_lock: "wf_db d \<Longrightarrow> wf_db (snd (lock getArgs args cap d))"
  by (simp add: lock_def wf_update_locked split: sum.splits)

lemma wf_unlock: "wf_db d \<Longrightarrow> wf_db (snd (unlock getArgs args cap d))"
  by (simp add: unlock_def wf_update_locked split: sum.splits)

lemma whatis_db: "snd (whatis shrinkList getArgs args d) = d"
  by (simp add: whatis_def Let_def split_beta split: sum.splits)

lemma randomfactoid_db: "snd (randomfactoid r d) = d"
  by (simp add: randomfactoid_def Let_def split: list.splits)

lemma factoidinfo_db: "snd (factoidinfo getArgs args d) = d"
  by (simp add: factoidinfo_def Let_def split_beta split: sum.splits list.splits)

lemma wf_step: "wf_db d \<Longrightarrow> wf_db (snd (step shrinkList getArgs c d))"
  by (cases c)
    (simp_all add: wf_learn wf_unlearn wf_lock wf_unlock whatis_db randomfactoid_db
      factoidinfo_db)

lemma wf_run: "wf_db d \<Longrightarrow> wf_db (run shrinkList getArgs cs d)"
  by (induction cs arbitrary: d) (simp_all add: wf_step)

subsection \<open>Keys without factoids\<close>

lemma no_empty_key_iff:
  "no_empty_key d \<longleftrightarrow> (\<forall>k\<in>set (keys d). \<exists>f\<in>set (factoids d). f_key_id f = k_id k)"
  by (auto simp: no_empty_key_def key_factoids_def list_all_iff filter_empty_conv)

lemma nek_insert_factoid:
  "no_empty_key d \<Longrightarrow> no_empty_key (insert_factoid kid name now txt d)"
  by (auto simp: no_empty_key_iff insert_factoid_def)

lemma nek_insert_new:
  "no_empty_key d \<Longrightarrow>
   no_empty_key (insert_factoid (next_rowid (map k_id (keys d))) name now txt (insert_key key d))"
  by (auto simp: no_empty_key_iff insert_factoid_def insert_key_def)

lemma select_key_empty: "select_key key d = [] \<longleftrightarrow> key \<notin> set (map k_key (keys d))"
  by (auto simp: select_key_def filter_empty_conv)

lemma select_key_insert_new:
  "key \<notin> set (map k_key (keys d)) \<Longrightarrow>
   select_key key (insert_key key d) = [(next_rowid (map k_id (keys d)), False)]"
proof -
  assume new: "key \<notin> set (map k_key (keys d))"
  then have "filter (\<lambda>r. k_key r = key) (keys d) = []"
    by (auto simp: filter_empty_conv)
  with new show ?thesis by (simp add: select_key_def insert_key_def)
qed

lemma nek_learn:
  assumes "no_empty_key d"
  shows "no_empty_key (snd (learn args True name now d))"
proof (cases "index_of ''as'' args")
  case None
  with assms show ?thesis by (simp add: learn_def)
next
  case (Some i)
  let ?key = "join '' '' (take i args)"
  show ?thesis
  proof (cases "select_key ?key d")
    case Nil
    then have new: "?key \<notin> set (map k_key (keys d))" by (simp add: select_key_empty)
    show ?thesis
      using assms by (simp add: learn_def Some Nil select_key_insert_new [OF new] nek_insert_new)
  next
    case (Cons row rows)
    with assms show ?thesis
      by (cases row) (simp add: learn_def Some nek_insert_factoid)
  qed
qed

lemma nek_update_locked: "no_empty_key d \<Longrightarrow> no_empty_key (update_locked b key d)"
  by (auto simp: no_empty_key_iff update_locked_def)

lemma nek_lock: "no_empty_key d \<Longrightarrow> no_empty_key (snd (lock getArgs args cap d))"
  by (simp add: lock_def nek_update_locked split: sum.splits)

lemma nek_unlock: "no_empty_key d \<Longrightarrow> no_empty_key (snd (unlock getArgs args cap d))"
  by (simp add: unlock_def nek_update_locked split: sum.splits)

lemma py_index_mem: "py_index xs n = Some v \<Longrightarrow> v \<in> set xs"
  by (auto simp: py_index_def split: if_splits)

lemma wf_distinct_key_ids: "wf_db d \<Longrightarrow> distinct (map k_id (keys d))"
  by (simp add: wf_db_def strict_sorted_iff)

lemma unlearn_db_many:
  assumes "1 < length (unlearn_rows key d)"
  shows "unlearn_db number key d =
         (case number of
            Some n \<Rightarrow>
              (case py_index (unlearn_rows key d) n of
                 None \<Rightarrow> (ErrorInvalidNumber, d)
               | Some (_, fid) \<Rightarrow> (ReplySuccess, delete_factoid_id fid d))
          | None \<Rightarrow> (ErrorSpecify (length (unlearn_rows key d)), d))"
proof -
  have "length (unlearn_rows key d) \<noteq> 0" "length (unlearn_rows key d) \<noteq> 1"
    using assms by auto
  then show ?thesis by (simp add: unlearn_db_def Let_def)
qed

lemma nek_unlearn_db:
  assumes wf: "wf_db d" and nek: "no_empty_key d"
  shows "no_empty_key (snd (unlearn_db number key d))"
proof (cases "key \<in> set (map k_key (keys d))")
  case False
  then have "unlearn_rows key d = []" by (simp add: unlearn_rows_def join_rows_absent)
  with nek show ?thesis by (simp add: unlearn_db_def)
next
  case True
  then obtain k where k: "k \<in> set (keys d)" "k_key k = key" by auto
  let ?fs = "key_factoids (k_id k) d"
  have dist: "distinct (map k_key (keys d))" using wf by (simp add: wf_db_def)
  have rows: "unlearn_rows key d = map (\<lambda>f. (k_id k, f_id f)) ?fs"
    using unlearn_rows_present [OF dist k(1)] k(2) by simp
  have other: "\<exists>f\<in>set (factoids d). f_key_id f = k_id r \<and> f \<noteq> x"
    if r: "r \<in> set (keys d)" "r \<noteq> k" and x: "x \<in> set ?fs" for r x
  proof -
    from nek r(1) obtain f where f: "f \<in> set (factoids d)" "f_key_id f = k_id r"
      by (auto simp: no_empty_key_iff)
    have "k_id r \<noteq> k_id k"
      using wf_distinct_key_ids [OF wf] r k(1) by (auto simp: distinct_map dest: inj_onD)
    with f x have "f \<noteq> x" by (auto simp: key_factoids_def)
    with f show ?thesis by blast
  qed
  consider (none) "?fs = []" | (one) x where "?fs = [x]" | (many) "1 < length ?fs"
    by (cases ?fs rule: list.exhaust; cases "tl ?fs") auto
  then show ?thesis
  proof cases
    case none
    with nek show ?thesis by (simp add: unlearn_db_def rows)
  next
    case (one x)
    have "unlearn_db number (k_key k) d =
          (ReplySuccess, \<lparr>keys = filter (\<lambda>r. r \<noteq> k) (keys d),
                           factoids = filter (\<lambda>f. f \<noteq> x) (factoids d)\<rparr>)"
      by (rule unlearn_db_single [OF dist k(1) one])
    moreover have "x \<in> set ?fs" using one by simp
    ultimately show ?thesis
      using other k(2) by (auto simp: no_empty_key_iff)
  next
    case many
    then have many_rows: "1 < length (unlearn_rows key d)" by (simp add: rows)
    show ?thesis
    proof (cases number)
      case None
      with nek show ?thesis by (simp add: unlearn_db_many [OF many_rows])
    next
      case (Some n)
      show ?thesis
      proof (cases "py_index (unlearn_rows key d) n")
        case None
        with nek \<open>number = Some n\<close> show ?thesis by (simp add: unlearn_db_many [OF many_rows])
      next
        case (Some v)
        then have "v \<in> set (unlearn_rows key d)" by (rule py_index_mem)
        then obtain x where x: "x \<in> set ?fs" "v = (k_id k, f_id x)"
          by (auto simp: rows)
        have xd: "x \<in> set (factoids d)" using x(1) by (simp add: key_factoids_def)
        have res: "unlearn_db number key d =
              (ReplySuccess, d\<lparr>factoids := filter (\<lambda>f. f \<noteq> x) (factoids d)\<rparr>)"
          using Some \<open>number = Some n\<close> x(2)
          by (simp add: unlearn_db_many [OF many_rows] delete_factoid_id_def
              filter_id_is_filter_row [OF wf_distinct_factoids [OF wf] xd])
        have "distinct ?fs"
          using wf_distinct_factoids [OF wf] by (simp add: key_factoids_def distinct_map)
        with many obtain y where y: "y \<in> set ?fs" "y \<noteq> x"
          by (cases ?fs rule: list.exhaust; cases "tl ?fs") auto
        then have own: "\<exists>f\<in>set (factoids d). f_key_id f = k_id k \<and> f \<noteq> x"
          by (auto simp: key_factoids_def)
        show ?thesis
          using other [OF _ _ x(1)] own by (auto simp: res no_empty_key_iff)
      qed
    qed
  qed
qed

lemma nek_unlearn:
  "wf_db d \<Longrightarrow> no_empty_key d \<Longrightarrow> no_empty_key (snd (unlearn getArgs args cap d))"
  by (simp add: unlearn_def nek_unlearn_db split: option.splits sum.splits)

lemma nek_step:
  "wf_db d \<Longrightarrow> no_empty_key d \<Longrightarrow> learn_granted c \<Longrightarrow> no_empty_key (snd (step shrinkList getArgs c d))"
  by (cases c)
    (simp_all add: nek_learn nek_unlearn nek_lock nek_unlock whatis_db randomfactoid_db
      factoidinfo_db)

subsection \<open>More on unlearn\<close>

lemma relock_unlearn:
  "unlearn getArgs args cap (relock g d)
   = (fst (unlearn getArgs args cap d), relock g (snd (unlearn getArgs args cap d)))"
  by (simp add: unlearn_def relock_unlearn_db split: option.splits sum.splits)

lemma unlearn_db_never_specify:
  "fst (unlearn_db (Some n) key d) \<noteq> ErrorSpecify m"
  by (simp add: unlearn_db_def Let_def split: option.splits prod.splits)

lemma select_key_insert_factoid:
  "select_key key (insert_factoid kid name now txt d) = select_key key d"
  by (simp add: select_key_def insert_factoid_def)

lemma unlearn_deletes_position:
  assumes "wf_db d" "k \<in> set (keys d)" "getArgs ws = Inr (k_key k)"
    and "py_int s = Some (int i)" "i < length (key_factoids (k_id k) d)"
  shows "fst (unlearn getArgs (ws @ [s]) True d) = ReplySuccess
       \<and> factoids (snd (unlearn getArgs (ws @ [s]) True d))
           = filter (\<lambda>f. f \<noteq> key_factoids (k_id k) d ! i) (factoids d)"
proof -
  let ?fs = "key_factoids (k_id k) d"
  have dist: "distinct (map k_key (keys d))" using assms(1) by (simp add: wf_db_def)
  have run: "unlearn getArgs (ws @ [s]) True d = unlearn_db (Some (int i)) (k_key k) d"
    using unlearn_parsed [where getArgs = getArgs and ws = ws, OF assms(4,3)] by simp
  show ?thesis
  proof (cases "length ?fs = 1")
    case True
    then obtain x where x: "?fs = [x]" by (cases ?fs) auto
    with assms(5) have "?fs ! i = x" by simp
    then show ?thesis using unlearn_db_single [OF dist assms(2) x] by (simp add: run)
  next
    case False
    with assms(5) have "1 < length ?fs" by simp
    then show ?thesis using unlearn_db_position [OF assms(1,2,5)] by (simp add: run)
  qed
qed

lemma relock_whatis_rows: "whatis_rows key (relock g d) = whatis_rows key d"
  by (simp add: whatis_rows_def relock_join_rows comp_def split_beta)

lemma relock_whatis:
  "fst (whatis shrinkList getArgs args (relock g d)) = fst (whatis shrinkList getArgs args d)"
  by (simp add: whatis_def relock_whatis_rows Let_def split_beta split: sum.splits)

lemma relock_randomfactoid: "fst (randomfactoid r (relock g d)) = fst (randomfactoid r d)"
proof -
  have "filter (\<lambda>k. k_id k = x) (map (\<lambda>r. r\<lparr>k_locked := g r\<rparr>) ks)
        = map (\<lambda>r. r\<lparr>k_locked := g r\<rparr>) (filter (\<lambda>k. k_id k = x) ks)" for x ks
    by (induction ks) auto
  then show ?thesis
    by (simp add: randomfactoid_def relock_def Let_def split: list.splits)
qed

lemma relock_lock_reply:
  "fst (lock getArgs args cap (relock g d)) = fst (lock getArgs args cap d)"
  "fst (unlock getArgs args cap (relock g d)) = fst (unlock getArgs args cap d)"
  by (simp_all add: lock_def unlock_def split: sum.splits)

subsection \<open>The databases the plugin reaches\<close>

text \<open>
  Every database that commands lead to from the empty one is well-formed, and the
  database with 25 factoids is what 25 learns of one key leave.
\<close>

lemma wf_reachable: "wf_db (run shrinkList getArgs cs makeDb)"
  by (simp add: wf_run wf_makeDb)

lemma db_many_reached:
  "run shrinkList getArgs (replicate 25 (Learn [''k'', ''as'', ''v''] True ''a'' 0)) makeDb = db_many"
  by (simp add: eval_nat_numeral learn_def statement_defs db_many_def)

section \<open>The claims\<close>

subsection \<open>C1: a key row without factoids\<close>

text \<open>
  C1. learn inserts the key row and commits before it asks for the capability. A caller
  without the capability who names a new key gets the error reply, and the key row stays
  in \<^verbatim>\<open>keys\<close> with no factoid: the database learn leaves has a key without factoids.
\<close>

theorem learn_denied_leaves_key:
  "learn [''k'', ''as'', ''v''] False ''nick'' 0 makeDb
   = (ErrorNoCapability, \<lparr>keys = [\<lparr>k_id = 1, k_key = ''k'', k_locked = False\<rparr>], factoids = []\<rparr>)
   \<and> no_empty_key makeDb
   \<and> \<not> no_empty_key (snd (learn [''k'', ''as'', ''v''] False ''nick'' 0 makeDb))"
  by (simp add: learn_def no_empty_key_def key_factoids_def statement_defs)

text \<open>
  The other commands keep the invariant. On a well-formed database in which every key has
  a factoid, any sequence of commands in which no learn comes from a caller without the
  capability leaves every key with a factoid.
\<close>

lemma no_empty_key_run:
  "wf_db d \<Longrightarrow> no_empty_key d \<Longrightarrow> list_all learn_granted cs \<Longrightarrow>
   no_empty_key (run shrinkList getArgs cs d)"
  by (induction cs arbitrary: d) (simp_all add: nek_step wf_step)

subsection \<open>C2: what whatis returns and counts\<close>

text \<open>
  C2 says that whatis reports the true number of factoids of the key and flags the cut
  at 20. The source counts the rows it fetched, which the query limits to 20, and
  mentions a count only when \<^verbatim>\<open>shrinkList\<close> returns a true value: with 25 factoids
  the reply holds 20 facts and no count when \<^verbatim>\<open>shrinkList\<close> removes nothing, and the
  count 20 when it removes one.
\<close>

theorem whatis_25_reports_20:
  "length (key_factoids 1 db_many) = 25
   \<and> whatis (\<lambda>L. (L, False)) join_args [''k''] db_many
     = (ReplyCouldBe ''k''
          (zip [0, 1, 2, 3, 4, 5, 6, 7, 8, 9, 10, 11, 12, 13, 14, 15, 16, 17, 18, 19]
               (replicate 20 ''v'')) None, db_many)
   \<and> whatis (\<lambda>L. (butlast L, True)) join_args [''k''] db_many
     = (ReplyCouldBe ''k''
          (zip [0, 1, 2, 3, 4, 5, 6, 7, 8, 9, 10, 11, 12, 13, 14, 15, 16, 17, 18]
               (replicate 19 ''v'')) (Some (19, 20)), db_many)"
  by (simp add: whatis_def key_factoids_def db_many_def statement_defs python_defs
      eval_nat_numeral)

text \<open>
  C2, amended. For a key with \<open>N > 0\<close> factoids whatis fetches the first \<open>min N 20\<close> of
  them in ascending id order and numbers them from 0; the reply holds what
  \<^verbatim>\<open>shrinkList\<close> leaves of that list, and when \<^verbatim>\<open>shrinkList\<close> returned a true value
  it adds the pair \<open>(min N 20 - 1, min N 20)\<close>: the count is that of the fetched rows,
  never more than 20.
\<close>

theorem whatis_limit:
  assumes "wf_db d" "k \<in> set (keys d)" "getArgs args = Inr (k_key k)"
    and "key_factoids (k_id k) d \<noteq> []"
  shows "sorted_wrt (<) (map f_id (key_factoids (k_id k) d))
       \<and> whatis shrinkList getArgs args d =
          (let n = min (length (key_factoids (k_id k) d)) 20;
               facts = zip [0..<n] (map f_fact (take 20 (key_factoids (k_id k) d)))
           in (ReplyCouldBe (k_key k) (fst (shrinkList facts))
                 (if snd (shrinkList facts) then Some (int n - 1, n) else None), d))"
proof -
  let ?fs = "key_factoids (k_id k) d"
  have rows: "whatis_rows (k_key k) d = map f_fact (take 20 ?fs)"
    by (rule whatis_rows_present [OF assms(1,2)])
  have ne: "take 20 ?fs \<noteq> []" using assms(4) by (cases ?fs) auto
  have len: "length ?fs \<noteq> 0" using assms(4) by simp
  show ?thesis
    using key_factoids_sorted [OF assms(1), of "k_id k"] ne len
    by (simp add: whatis_def assms(3) rows whatis_loop_eq Let_def split_beta min.commute)
qed

theorem whatis_limit_witness:
  "wf_db db_many
   \<and> whatis (\<lambda>L. (take 2 L, True)) join_args [''k''] db_many
     = (ReplyCouldBe ''k'' [(0, ''v''), (1, ''v'')] (Some (19, 20)), db_many)"
proof -
  let ?k = "\<lparr>k_id = 1, k_key = ''k'', k_locked = False\<rparr>"
  have wf: "wf_db db_many" by (simp add: wf_db_def db_many_def)
  have mem: "?k \<in> set (keys db_many)" by (simp add: db_many_def)
  have key: "join_args [''k''] = Inr (k_key ?k)" by (simp add: join_args_def)
  have fs: "key_factoids (k_id ?k) db_many = factoids db_many"
    by (simp add: key_factoids_def db_many_def)
  have ne: "key_factoids (k_id ?k) db_many \<noteq> []"
    by (simp add: key_factoids_def db_many_def)
  have len: "length (factoids db_many) = 25" by (simp add: db_many_def)
  have facts: "map f_fact (take 20 (factoids db_many)) = replicate 20 ''v''"
    by (simp add: db_many_def eval_nat_numeral)
  have upt: "[0..<20] = [0, 1, 2, 3, 4, 5, 6, 7, 8, 9, 10, 11, 12, 13, 14, 15, 16, 17, 18, 19]"
    by (simp add: upt_rec)
  have shown: "take 2 (zip [0..<20] (replicate 20 ''v'')) = [(0, ''v''), (1, ''v'')]"
    by (simp add: upt eval_nat_numeral)
  have "whatis (\<lambda>L. (take 2 L, True)) join_args [''k''] db_many
        = (ReplyCouldBe ''k'' [(0, ''v''), (1, ''v'')] (Some (19, 20)), db_many)"
    using whatis_limit [where getArgs = join_args and args = "[''k'']"
        and shrinkList = "\<lambda>L. (take 2 L, True)", OF wf mem key ne]
    by (simp only: fs len facts Let_def) (simp add: shown)
  with wf show ?thesis by simp
qed

subsection \<open>C3: unlearn of a key with one factoid, without a number\<close>

text \<open>
  C3. \<^verbatim>\<open>args[-1].isdigit\<close> is not called, so its test always holds and unlearn always
  reads the last argument as the number. With the key text alone, \<^verbatim>\<open>int\<close> raises
  ValueError before the database is touched: the one factoid of \<^verbatim>\<open>color\<close> and its key
  row are still there.
\<close>

theorem unlearn_single_without_number:
  "length (key_factoids 1 db_color1) = 1
   \<and> unlearn getArgs [''color''] True db_color1 = (Raised ValueError, db_color1)"
  by (simp add: unlearn_def key_factoids_def python_defs example_defs)

text \<open>
  Whatever the arguments are, a last argument that \<^verbatim>\<open>int\<close> rejects ends unlearn with
  ValueError (\<open>unlearn_not_a_number\<close>). When the last argument is a number and the key has
  one factoid, the number is not looked at: the factoid and the key row are deleted,
  \<^verbatim>\<open>factoidinfo\<close> no longer finds the key, and the next learn of the text inserts a new
  key row that is not locked.
\<close>

lemma unlearn_single_with_number:
  assumes "wf_db d" "k \<in> set (keys d)" "getArgs ws = Inr (k_key k)"
    and "py_int s = Some n" "key_factoids (k_id k) d = [x]"
    and "''as'' \<notin> set ks" "k_key k = join '' '' ks"
    and "d' = snd (unlearn getArgs (ws @ [s]) True d)"
  shows "fst (unlearn getArgs (ws @ [s]) True d) = ReplySuccess
       \<and> d' = \<lparr>keys = filter (\<lambda>r. r \<noteq> k) (keys d), factoids = filter (\<lambda>f. f \<noteq> x) (factoids d)\<rparr>
       \<and> select_key (k_key k) d' = []
       \<and> factoidinfo getArgs ws d' = (ErrorNoMatch, d')
       \<and> select_key (k_key k) (snd (learn (ks @ ''as'' # vs) True name now d'))
         = [(next_rowid (map k_id (keys d')), False)]"
proof -
  have dist: "distinct (map k_key (keys d))" using assms(1) by (simp add: wf_db_def)
  have run: "unlearn getArgs (ws @ [s]) True d =
        (ReplySuccess, \<lparr>keys = filter (\<lambda>r. r \<noteq> k) (keys d),
                         factoids = filter (\<lambda>f. f \<noteq> x) (factoids d)\<rparr>)"
    using unlearn_db_single [OF dist assms(2,5)]
    by (simp add: unlearn_parsed [where getArgs = getArgs and ws = ws, OF assms(4,3)])
  then have d': "d' = \<lparr>keys = filter (\<lambda>r. r \<noteq> k) (keys d),
                         factoids = filter (\<lambda>f. f \<noteq> x) (factoids d)\<rparr>"
    by (simp add: assms(8))
  have gone: "k_key k \<notin> set (map k_key (keys d'))"
  proof
    assume "k_key k \<in> set (map k_key (keys d'))"
    then obtain r where r: "r \<in> set (keys d)" "r \<noteq> k" "k_key r = k_key k"
      by (auto simp: d')
    with dist assms(2) show False by (auto simp: distinct_map dest: inj_onD)
  qed
  then have sel: "select_key (k_key k) d' = []" by (simp add: select_key_empty)
  have info: "factoidinfo getArgs ws d' = (ErrorNoMatch, d')"
    using sel by (simp add: factoidinfo_def assms(3))
  have fresh: "select_key (k_key k) (snd (learn (ks @ ''as'' # vs) True name now d'))
               = [(next_rowid (map k_id (keys d')), False)]"
    using sel assms(7) select_key_insert_new [OF gone]
    by (simp add: learn_def Let_def index_of_first [OF assms(6)] select_key_insert_factoid)
  show ?thesis using run d' sel info fresh by simp
qed

subsection \<open>C4: lock and unlock of a text that is no key\<close>

text \<open>
  C4 says that lock and unlock fail when no row of \<^verbatim>\<open>keys\<close> holds the text. The source
  runs the \<^verbatim>\<open>UPDATE\<close> and replies \<^verbatim>\<open>conf.replySuccess\<close> without looking at the number of
  rows it changed: on the empty database both succeed.
\<close>

theorem lock_absent_key_succeeds:
  "select_key ''nokey'' makeDb = []
   \<and> lock join_args [''nokey''] True makeDb = (ReplySuccess, makeDb)
   \<and> unlock join_args [''nokey''] True makeDb = (ReplySuccess, makeDb)"
  by (simp add: lock_def unlock_def statement_defs python_defs)

text \<open>
  C4, amended. With the capability, lock and unlock of arguments that give a key text
  always reply success. They leave \<^verbatim>\<open>factoids\<close> as it is, and in \<^verbatim>\<open>keys\<close> they set the lock
  flag of the rows that hold the text (to true for lock, to false for unlock) and change
  no other row: when no row holds the text the database is unchanged, and otherwise the
  row the text selects comes back with the new flag.
\<close>

theorem lock_unlock_always_succeed:
  assumes "getArgs args = Inr key"
  shows "fst (lock getArgs args True d) = ReplySuccess
       \<and> fst (unlock getArgs args True d) = ReplySuccess
       \<and> factoids (snd (lock getArgs args True d)) = factoids d
       \<and> factoids (snd (unlock getArgs args True d)) = factoids d
       \<and> keys (snd (lock getArgs args True d))
           = map (\<lambda>r. if k_key r = key then r\<lparr>k_locked := True\<rparr> else r) (keys d)
       \<and> keys (snd (unlock getArgs args True d))
           = map (\<lambda>r. if k_key r = key then r\<lparr>k_locked := False\<rparr> else r) (keys d)
       \<and> (if select_key key d = []
          then snd (lock getArgs args True d) = d \<and> snd (unlock getArgs args True d) = d
          else select_key key (snd (lock getArgs args True d))
                 = map (\<lambda>(kid, locked). (kid, True)) (select_key key d)
             \<and> select_key key (snd (unlock getArgs args True d))
                 = map (\<lambda>(kid, locked). (kid, False)) (select_key key d))"
proof -
  have same: "update_locked b key d = d" if "select_key key d = []" for b
  proof -
    from that have "\<forall>r \<in> set (keys d). k_key r \<noteq> key"
      by (simp add: select_key_def filter_empty_conv)
    then have "map (\<lambda>r. if k_key r = key then r\<lparr>k_locked := b\<rparr> else r) (keys d) = keys d"
      by (simp add: map_idI)
    then show ?thesis by (simp add: update_locked_def)
  qed
  have rows: "map (\<lambda>r. (k_id r, k_locked r))
                (filter (\<lambda>r. k_key r = key)
                   (map (\<lambda>r. if k_key r = key then r\<lparr>k_locked := b\<rparr> else r) ks))
              = map (\<lambda>(kid, locked). (kid, b))
                  (map (\<lambda>r. (k_id r, k_locked r)) (filter (\<lambda>r. k_key r = key) ks))" for b ks
    by (induction ks) auto
  have sel: "select_key key (update_locked b key d)
             = map (\<lambda>(kid, locked). (kid, b)) (select_key key d)" for b
    using rows [of b "keys d"] by (simp add: select_key_def update_locked_def)
  have run: "lock getArgs args True d = (ReplySuccess, update_locked True key d)"
    "unlock getArgs args True d = (ReplySuccess, update_locked False key d)"
    by (simp_all add: lock_def unlock_def assms)
  have tables: "keys (update_locked b key d)
                = map (\<lambda>r. if k_key r = key then r\<lparr>k_locked := b\<rparr> else r) (keys d)"
    "factoids (update_locked b key d) = factoids d" for b
    by (simp_all add: update_locked_def)
  show ?thesis
  proof (cases "select_key key d = []")
    case True
    then show ?thesis using tables [of True] tables [of False]
      by (simp add: run same)
  next
    case False
    then show ?thesis by (simp add: run sel tables)
  qed
qed

theorem lock_unlock_always_succeed_witness:
  "fst (lock join_args [''color''] True db_color2) = ReplySuccess
   \<and> keys (snd (lock join_args [''color''] True db_color2)) = [color_key\<lparr>k_locked := True\<rparr>]
   \<and> factoids (snd (lock join_args [''color''] True db_color2)) = [fact_blue, fact_red]
   \<and> fst (unlock join_args [''color''] True db_locked) = ReplySuccess
   \<and> keys (snd (unlock join_args [''color''] True db_locked)) = [color_key]
   \<and> snd (lock join_args [''nokey''] True db_color2) = db_color2"
  using lock_unlock_always_succeed [of join_args "[''color'']" "''color''" db_color2]
    lock_unlock_always_succeed [of join_args "[''color'']" "''color''" db_locked]
    lock_unlock_always_succeed [of join_args "[''nokey'']" "''nokey''" db_color2]
  by (simp add: join_args_def select_key_def example_defs)

subsection \<open>C5: learn on a locked key\<close>

text \<open>
  C5. When the key of a \<^verbatim>\<open>learn\<close> is the text of a row of \<^verbatim>\<open>keys\<close> whose lock flag is
  set, learn answers \<^verbatim>\<open>That factoid is locked.\<close> and the database is unchanged: no
  factoid row is written, for this key or any other.
\<close>

theorem learn_locked:
  assumes "wf_db d" "k \<in> set (keys d)" "k_locked k"
    and "''as'' \<notin> set ws" "k_key k = join '' '' ws"
  shows "learn (ws @ ''as'' # vs) cap name now d = (ErrorLocked, d)"
proof -
  have dist: "distinct (map k_key (keys d))" using assms(1) by (simp add: wf_db_def)
  have sel: "select_key (join '' '' ws) d = [(k_id k, k_locked k)]"
    using select_key_present [OF dist assms(2)] assms(5) by simp
  show ?thesis
    using assms(3) by (simp add: learn_def index_of_first [OF assms(4)] sel)
qed

theorem learn_locked_witness:
  "wf_db db_locked
   \<and> learn [''color'', ''as'', ''green''] True ''bob'' 300 db_locked = (ErrorLocked, db_locked)"
  using learn_locked [of db_locked "color_key\<lparr>k_locked := True\<rparr>" "[''color'']" "[''green'']"
      True "''bob''" 300]
  by (simp add: wf_db_def example_defs)

subsection \<open>C6: unlearn with a position\<close>

text \<open>
  C6. For a key with factoids \<open>fs\<close> (in ascending id order, the order whatis shows them
  in) and a position \<open>i < length fs\<close>, \<^verbatim>\<open>unlearn key i\<close> by a caller with the capability
  succeeds and removes the row \<open>fs ! i\<close> from \<^verbatim>\<open>factoids\<close> and no other row.
\<close>

theorem unlearn_position:
  assumes "wf_db d" "k \<in> set (keys d)" "getArgs ws = Inr (k_key k)"
    and "py_int s = Some (int i)" "i < length (key_factoids (k_id k) d)"
  shows "fst (unlearn getArgs (ws @ [s]) True d) = ReplySuccess
       \<and> factoids (snd (unlearn getArgs (ws @ [s]) True d))
           = filter (\<lambda>f. f \<noteq> key_factoids (k_id k) d ! i) (factoids d)
       \<and> Suc (length (factoids (snd (unlearn getArgs (ws @ [s]) True d)))) = length (factoids d)
       \<and> sorted_wrt (<) (map f_id (key_factoids (k_id k) d))
       \<and> whatis_rows (k_key k) d = map f_fact (take 20 (key_factoids (k_id k) d))"
proof -
  let ?fs = "key_factoids (k_id k) d"
  have dist: "distinct (map k_key (keys d))" using assms(1) by (simp add: wf_db_def)
  have mem: "?fs ! i \<in> set (factoids d)"
    using nth_mem [OF assms(5)] by (simp add: key_factoids_def)
  have dfs: "distinct (factoids d)"
    using wf_distinct_factoids [OF assms(1)] by (simp add: distinct_map)
  have run: "unlearn getArgs (ws @ [s]) True d = unlearn_db (Some (int i)) (k_key k) d"
    using unlearn_parsed [where getArgs = getArgs and ws = ws, OF assms(4,3)] by simp
  have del: "fst (unlearn_db (Some (int i)) (k_key k) d) = ReplySuccess
     \<and> factoids (snd (unlearn_db (Some (int i)) (k_key k) d)) = filter (\<lambda>f. f \<noteq> ?fs ! i) (factoids d)"
  proof (cases "length ?fs = 1")
    case True
    then obtain x where x: "?fs = [x]" by (cases ?fs) auto
    with assms(5) have "?fs ! i = x" by simp
    then show ?thesis using unlearn_db_single [OF dist assms(2) x] by simp
  next
    case False
    with assms(5) have "1 < length ?fs" by simp
    then show ?thesis using unlearn_db_position [OF assms(1,2,5)] by simp
  qed
  show ?thesis
    using del length_filter_neq [OF dfs mem] key_factoids_sorted [OF assms(1)]
      whatis_rows_present [OF assms(1,2)]
    by (simp add: run)
qed

theorem unlearn_position_witness:
  "wf_db db_color2
   \<and> fst (unlearn join_args [''color'', ''1''] True db_color2) = ReplySuccess
   \<and> factoids (snd (unlearn join_args [''color'', ''1''] True db_color2)) = [fact_blue]
   \<and> whatis_rows ''color'' db_color2 = [''blue'', ''red'']"
  using unlearn_position [of db_color2 color_key join_args "[''color'']" "''1''" 1]
  by (simp add: wf_db_def key_factoids_def example_defs python_defs)

subsection \<open>C7: unlearn of a key with several factoids, without a number\<close>

text \<open>
  C7. Because \<^verbatim>\<open>args[-1].isdigit\<close> is not called, unlearn reads the last word of the key
  text as the number. With the key text alone and two factoids for the key it raises
  ValueError; it does not reply that two factoids have the key. Nothing is deleted.
\<close>

theorem unlearn_many_without_number:
  "length (key_factoids 1 db_color2) = 2
   \<and> unlearn getArgs [''color''] True db_color2 = (Raised ValueError, db_color2)"
  by (simp add: unlearn_def key_factoids_def python_defs example_defs)

text \<open>
  The branch that asks for a number is in the source (\<open>unlearn_db\<close> with no number), but
  no argument list reaches it: unlearn never replies that a number is needed.
\<close>

lemma unlearn_db_none_many:
  assumes "1 < length (unlearn_rows key d)"
  shows "unlearn_db None key d = (ErrorSpecify (length (unlearn_rows key d)), d)"
  by (simp add: unlearn_db_many [OF assms])

lemma unlearn_never_specify: "fst (unlearn getArgs args cap d) \<noteq> ErrorSpecify m"
  by (simp add: unlearn_def isdigit_attr_def unlearn_db_never_specify
      split: option.splits sum.splits)

subsection \<open>C8: a negative number\<close>

text \<open>
  C8. \<^verbatim>\<open>results[number]\<close> with a negative number counts from the end of the list and
  raises no IndexError: \<^verbatim>\<open>unlearn color -1\<close> on a key with two factoids deletes the
  last one and replies success.
\<close>

theorem unlearn_negative_number:
  "length (key_factoids 1 db_color2) = 2
   \<and> unlearn join_args [''color'', ''-1''] True db_color2 = (ReplySuccess, db_color1)"
  by (simp add: unlearn_def unlearn_db_def key_factoids_def statement_defs python_defs
      example_defs)

text \<open>
  For a key with \<open>N > 1\<close> factoids, a number \<open>p\<close> with \<open>N \<le> p\<close> or \<open>p < - N\<close> gets the
  reply \<^verbatim>\<open>Invalid factoid number.\<close> and changes nothing; a number with \<open>- N \<le> p < 0\<close>
  deletes the factoid at position \<open>N + p\<close>.
\<close>

lemma unlearn_out_of_range:
  assumes "wf_db d" "k \<in> set (keys d)" "getArgs ws = Inr (k_key k)"
    and "py_int s = Some p" "1 < length (key_factoids (k_id k) d)"
    and "int (length (key_factoids (k_id k) d)) \<le> p \<or> p < - int (length (key_factoids (k_id k) d))"
  shows "unlearn getArgs (ws @ [s]) True d = (ErrorInvalidNumber, d)"
proof -
  have dist: "distinct (map k_key (keys d))" using assms(1) by (simp add: wf_db_def)
  have rows: "unlearn_rows (k_key k) d
              = map (\<lambda>f. (k_id k, f_id f)) (key_factoids (k_id k) d)"
    by (rule unlearn_rows_present [OF dist assms(2)])
  have many: "1 < length (unlearn_rows (k_key k) d)" using assms(5) by (simp add: rows)
  have "py_index (unlearn_rows (k_key k) d) p = None"
    using assms(6) by (auto simp: py_index_def rows)
  then show ?thesis
    by (simp add: unlearn_parsed [where getArgs = getArgs and ws = ws, OF assms(4,3)] unlearn_db_many [OF many])
qed

lemma unlearn_negative_in_range:
  assumes "wf_db d" "k \<in> set (keys d)" "getArgs ws = Inr (k_key k)"
    and "py_int s = Some p" "1 < length (key_factoids (k_id k) d)"
    and "- int (length (key_factoids (k_id k) d)) \<le> p" "p < 0"
  shows "unlearn getArgs (ws @ [s]) True d =
         (ReplySuccess,
          d\<lparr>factoids := filter (\<lambda>f. f \<noteq> key_factoids (k_id k) d
                                            ! nat (int (length (key_factoids (k_id k) d)) + p))
                           (factoids d)\<rparr>)"
proof -
  let ?fs = "key_factoids (k_id k) d"
  let ?j = "nat (int (length ?fs) + p)"
  have j: "?j < length ?fs" using assms(6,7) by linarith
  have dist: "distinct (map k_key (keys d))" using assms(1) by (simp add: wf_db_def)
  have rows: "unlearn_rows (k_key k) d = map (\<lambda>f. (k_id k, f_id f)) ?fs"
    by (rule unlearn_rows_present [OF dist assms(2)])
  have many: "1 < length (unlearn_rows (k_key k) d)" using assms(5) by (simp add: rows)
  have mem: "?fs ! ?j \<in> set (factoids d)"
    using nth_mem [OF j] by (simp add: key_factoids_def)
  have "py_index (unlearn_rows (k_key k) d) p = Some (k_id k, f_id (?fs ! ?j))"
    using assms(6,7) j by (simp add: py_index_def rows)
  then show ?thesis
    by (simp add: unlearn_parsed [where getArgs = getArgs and ws = ws, OF assms(4,3)] unlearn_db_many [OF many] delete_factoid_id_def
        filter_id_is_filter_row [OF wf_distinct_factoids [OF assms(1)] mem])
qed

subsection \<open>C10: unlearn on a locked key\<close>

text \<open>
  C10 says that only learn looks at the lock flag. \<^verbatim>\<open>factoidinfo\<close> reads it too and puts
  it in its reply: on the same key, locked and not locked, its replies differ.
\<close>

theorem factoidinfo_reads_locked:
  "db_locked = relock (\<lambda>r. True) db_color2
   \<and> factoidinfo join_args [''color''] db_color2
     = (ReplyInfo ''color'' False 2 [(0, ''alice'', 100), (1, ''bob'', 200)], db_color2)
   \<and> factoidinfo join_args [''color''] db_locked
     = (ReplyInfo ''color'' True 2 [(0, ''alice'', 100), (1, ''bob'', 200)], db_locked)"
  by (simp add: factoidinfo_def relock_def select_key_def join_args_def example_defs)

text \<open>
  C10, amended. For a key whose lock flag is set and a position \<open>i\<close> within its factoids,
  unlearn by a caller with the capability succeeds and removes exactly the \<open>i\<close>-th factoid
  of the key. unlearn does not read the flag: with the flags of \<^verbatim>\<open>keys\<close> set in any other
  way it gives the same reply and deletes the same rows. The replies of whatis,
  randomfactoid, lock and unlock do not depend on the flags either.
\<close>

theorem unlearn_locked_key:
  assumes "wf_db d" "k \<in> set (keys d)" "k_locked k" "getArgs ws = Inr (k_key k)"
    and "py_int s = Some (int i)" "i < length (key_factoids (k_id k) d)"
  shows "fst (unlearn getArgs (ws @ [s]) True d) = ReplySuccess
       \<and> factoids (snd (unlearn getArgs (ws @ [s]) True d))
           = filter (\<lambda>f. f \<noteq> key_factoids (k_id k) d ! i) (factoids d)
       \<and> Suc (length (factoids (snd (unlearn getArgs (ws @ [s]) True d)))) = length (factoids d)
       \<and> unlearn getArgs args cap (relock g d)
           = (fst (unlearn getArgs args cap d), relock g (snd (unlearn getArgs args cap d)))
       \<and> fst (whatis shrinkList getArgs args (relock g d)) = fst (whatis shrinkList getArgs args d)
       \<and> fst (randomfactoid r (relock g d)) = fst (randomfactoid r d)
       \<and> fst (lock getArgs args cap (relock g d)) = fst (lock getArgs args cap d)
       \<and> fst (unlock getArgs args cap (relock g d)) = fst (unlock getArgs args cap d)"
proof -
  have mem: "key_factoids (k_id k) d ! i \<in> set (factoids d)"
    using nth_mem [OF assms(6)] by (simp add: key_factoids_def)
  have dfs: "distinct (factoids d)"
    using wf_distinct_factoids [OF assms(1)] by (simp add: distinct_map)
  show ?thesis
    using unlearn_deletes_position [where getArgs = getArgs and ws = ws, OF assms(1,2,4,5,6)]
      length_filter_neq [OF dfs mem]
    by (simp add: relock_unlearn relock_whatis relock_randomfactoid relock_lock_reply)
qed

theorem unlearn_locked_key_witness:
  "wf_db db_locked
   \<and> fst (unlearn join_args [''color'', ''1''] True db_locked) = ReplySuccess
   \<and> factoids (snd (unlearn join_args [''color'', ''1''] True db_locked)) = [fact_blue]"
  using unlearn_locked_key [of db_locked "color_key\<lparr>k_locked := True\<rparr>" join_args "[''color'']"
      "''1''" 1 "[''color'']" True "\<lambda>r. True" "\<lambda>L. (L, False)" 0]
  by (simp add: wf_db_def key_factoids_def example_defs python_defs)

end
